theory Spec2Isabelle
  imports Main
begin

section \<open>roproxy-lite: the request handler and the retry recursion of main.go\<close>

text \<open>
  The development embeds \<^verbatim>\<open>requestHandler\<close> and \<^verbatim>\<open>makeRequest\<close> of
  \<^verbatim>\<open>src/main.go\<close> (the later of the two revisions in the repository) as HOL functions.
  Everything the Go code does to the outside world is a field of an explicit state:
  the requests handed to \<^verbatim>\<open>client.Do\<close>, the durations passed to \<^verbatim>\<open>time.Sleep\<close>
  and the events written by \<^verbatim>\<open>jlog\<close>. The upstream server is a parameter: a function
  from the number of earlier calls and the request to the result of the call.
\<close>

subsection \<open>Go standard library: strings and strconv\<close>

text \<open>
  A Go string is a sequence of bytes, here a \<^typ>\<open>string\<close>. Header names are ASCII
  tokens, so \<^verbatim>\<open>strings.ToLower\<close> is modelled on the ASCII letters; every other byte
  is left as it is.
\<close>

definition lowerByte :: "char \<Rightarrow> char" where
  "lowerByte c =
     (if 65 \<le> (of_char c :: nat) \<and> (of_char c :: nat) \<le> 90
      then char_of ((of_char c :: nat) + 32) else c)"

definition ToLower :: "string \<Rightarrow> string" where
  "ToLower s = map lowerByte s"

text \<open>
  \<^verbatim>\<open>strings.SplitN(s, sep, 2)\<close> for a separator of one byte: the text before the
  first separator and the whole rest after it, or \<^verbatim>\<open>s\<close> alone when it holds no
  separator.
\<close>

definition SplitN2 :: "string \<Rightarrow> char \<Rightarrow> string list" where
  "SplitN2 s sep =
     (if sep \<in> set s
      then [takeWhile (\<lambda>c. c \<noteq> sep) s, drop 1 (dropWhile (\<lambda>c. c \<noteq> sep) s)]
      else [s])"

text \<open>
  \<^verbatim>\<open>strconv.Itoa\<close>: the decimal text of an integer, with a minus sign when negative.
\<close>

fun natDigits :: "nat \<Rightarrow> string" where
  "natDigits n =
     (if n < 10 then [char_of (48 + n)]
      else natDigits (n div 10) @ [char_of (48 + n mod 10)])"

definition Itoa :: "int \<Rightarrow> string" where
  "Itoa i = (if i < 0 then CHR ''-'' # natDigits (nat (- i)) else natDigits (nat i))"

text \<open>
  \<^verbatim>\<open>strconv.Atoi\<close> on a 64-bit platform: an optional sign and then decimal digits.
  The result is the value and whether the error is nil. On a syntax error the value is 0;
  on a range error it is the nearest bound of int64, as \<^verbatim>\<open>ParseInt\<close> returns it.
\<close>

definition isDigit :: "char \<Rightarrow> bool" where
  "isDigit c = (48 \<le> (of_char c :: nat) \<and> (of_char c :: nat) \<le> 57)"

definition digitsValue :: "string \<Rightarrow> int" where
  "digitsValue ds = foldl (\<lambda>n c. n * 10 + (int (of_char c) - 48)) 0 ds"

definition Atoi :: "string \<Rightarrow> int \<times> bool" where
  "Atoi s =
     (let neg = (take 1 s = ''-'');
          ds = (if take 1 s = ''-'' \<or> take 1 s = ''+'' then drop 1 s else s)
      in if ds = [] \<or> \<not> list_all isDigit ds then (0, False)
         else let un = digitsValue ds
              in if \<not> neg \<and> 9223372036854775808 \<le> un then (9223372036854775807, False)
                 else if neg \<and> 9223372036854775808 < un then (- 9223372036854775808, False)
                 else (if neg then - un else un, True))"

subsection \<open>Go time: durations\<close>

text \<open>
  \<^verbatim>\<open>time.Duration\<close> is an int64 count of nanoseconds, and Go's arithmetic on it wraps
  around. \<^verbatim>\<open>wrap64\<close> reads an integer as the int64 with the same low 64 bits.
\<close>

definition wrap64 :: "int \<Rightarrow> int" where
  "wrap64 x = (x + 9223372036854775808) mod 18446744073709551616 - 9223372036854775808"

definition Millisecond :: int where
  "Millisecond = 1000000"

definition Second :: int where
  "Second = 1000000000"

subsection \<open>fasthttp: headers, requests and responses\<close>

text \<open>
  A header set is the list of its entries in the order \<^verbatim>\<open>VisitAll\<close> enumerates them.
  fasthttp brings header names to one canonical spelling, so two names are the same key
  exactly when they agree up to the case of their letters. \<^verbatim>\<open>Set\<close> overwrites the
  value of the first entry with the key and appends an entry when there is none,
  \<^verbatim>\<open>Del\<close> removes every entry with the key, and \<^verbatim>\<open>Peek\<close> returns the value of the
  first entry with the key, or no bytes.

  This is how fasthttp treats the headers it stores as plain entries. It keeps some names
  in fields of their own, with rules of their own: a response appends every
  \<^verbatim>\<open>Set-Cookie\<close> and ignores a \<^verbatim>\<open>Date\<close> that is set, a request keeps its
  \<^verbatim>\<open>User-Agent\<close>, \<^verbatim>\<open>Content-Type\<close> and cookies apart, and the client writes
  \<^verbatim>\<open>Host\<close> and \<^verbatim>\<open>Content-Length\<close> itself. The lists \<open>requestOwnFields\<close> and
  \<open>responseOwnFields\<close> below name them; for these names, and for the order of the
  entries, the model is not the library, and no statement on the headers of a request
  or a response below is made for them.
\<close>

type_synonym Header = "(string \<times> string) list"

definition sameKey :: "string \<Rightarrow> string \<Rightarrow> bool" where
  "sameKey k k' = (ToLower k = ToLower k')"

fun Header_Peek :: "Header \<Rightarrow> string \<Rightarrow> string" where
  "Header_Peek [] key = []"
| "Header_Peek ((k, v) # h) key = (if sameKey k key then v else Header_Peek h key)"

fun Header_Set :: "Header \<Rightarrow> string \<Rightarrow> string \<Rightarrow> Header" where
  "Header_Set [] key val = [(key, val)]"
| "Header_Set ((k, v) # h) key val =
     (if sameKey k key then (k, val) # h else (k, v) # Header_Set h key val)"

definition Header_Del :: "Header \<Rightarrow> string \<Rightarrow> Header" where
  "Header_Del h key = filter (\<lambda>(k, v). \<not> sameKey k key) h"

definition Header_VisitAll :: "Header \<Rightarrow> (string \<Rightarrow> string \<Rightarrow> 's \<Rightarrow> 's) \<Rightarrow> 's \<Rightarrow> 's" where
  "Header_VisitAll h f s = foldl (\<lambda>acc (k, v). f k v acc) s h"



text \<open>
  \<^verbatim>\<open>VisitAll\<close> on the header of a response enumerates its content type before the
  plain entries, and a response whose content type is empty reports fasthttp's default
  one; so does a blank response.
\<close>

definition defaultContentType :: string where
  "defaultContentType = ''text/plain; charset=utf-8''"

definition ResponseHeader_enumerated :: "Header \<Rightarrow> Header" where
  "ResponseHeader_enumerated h =
     (''Content-Type'',
      if Header_Peek h ''Content-Type'' = [] then defaultContentType
      else Header_Peek h ''Content-Type'') #
     Header_Del h ''Content-Type''"

definition ResponseHeader_VisitAll :: "Header \<Rightarrow> (string \<Rightarrow> string \<Rightarrow> 's \<Rightarrow> 's) \<Rightarrow> 's \<Rightarrow> 's" where
  "ResponseHeader_VisitAll h f s = Header_VisitAll (ResponseHeader_enumerated h) f s"

text \<open>
  The inbound request as the handler reads it from \<^verbatim>\<open>ctx\<close>. The accessor
  \<^verbatim>\<open>RequestURI()\<close> never returns an empty target: fasthttp answers \<^verbatim>\<open>/\<close> for one,
  which is why the slice \<^verbatim>\<open>[1:]\<close> of the Go code is always in range.
\<close>

record RequestCtx =
  ctxMethod :: string
  ctxTarget :: string
  ctxHeader :: Header
  ctxBody :: string

definition RequestURI :: "RequestCtx \<Rightarrow> string" where
  "RequestURI ctx = (if ctxTarget ctx = [] then ''/'' else ctxTarget ctx)"

text \<open>The outbound request built for the upstream, and a response.\<close>

record Request =
  reqMethod :: string
  reqURI :: string
  reqHost :: string
  reqHeader :: Header
  reqBody :: string

record Response =
  StatusCode :: int
  respHeader :: Header
  respBody :: string

text \<open>
  \<^verbatim>\<open>fasthttp.AcquireRequest\<close> and \<^verbatim>\<open>fasthttp.AcquireResponse\<close> hand out blank
  objects; a blank request has the method GET and a blank response reads as status 200.
  The response of \<^verbatim>\<open>ctx\<close> starts out blank as well. \<open>respHeader\<close> holds the
  headers that have been set on a response: none on a blank one, which still reports
  the default content type when its headers are enumerated.
\<close>

definition AcquireRequest :: Request where
  "AcquireRequest = \<lparr>reqMethod = ''GET'', reqURI = [], reqHost = [], reqHeader = [], reqBody = []\<rparr>"

definition AcquireResponse :: Response where
  "AcquireResponse = \<lparr>StatusCode = 200, respHeader = [], respBody = []\<rparr>"

subsection \<open>The outside world\<close>

datatype AttemptResult = TransportError string | Received Response

datatype LogEvent =
    RetryErr int string string
  | Retry5xx int int string

type_synonym Upstream = "nat \<Rightarrow> Request \<Rightarrow> AttemptResult"

record World =
  calls :: "Request list"
  sleeps :: "int list"
  logs :: "LogEvent list"

text \<open>
  \<^verbatim>\<open>client.Do(req, resp)\<close>: one exchange through the client. The call is recorded
  with the request as the proxy built it, and its result is what the client returns for
  this request as its n-th call: an error, or the response it received. The function
  \<open>up\<close> stands for the client with the upstream behind it. What the client does to the
  request on the way is therefore part of \<open>up\<close>: it parses the URI and asks the
  upstream for the normalised path (\<open>URI_Path\<close> below), it writes \<^verbatim>\<open>Host\<close> itself,
  and it returns an error where it cannot reach a host, as for an empty one.
\<close>

definition Do :: "Upstream \<Rightarrow> Request \<Rightarrow> World \<Rightarrow> AttemptResult \<times> World" where
  "Do up req w = (up (length (calls w)) req, w\<lparr>calls := calls w @ [req]\<rparr>)"

text \<open>
  \<^verbatim>\<open>time.Sleep(d)\<close>: the duration passed is recorded, in nanoseconds. Go pauses
  for a positive duration and returns immediately for a negative one or zero.
\<close>

definition Sleep :: "int \<Rightarrow> World \<Rightarrow> World" where
  "Sleep d w = w\<lparr>sleeps := sleeps w @ [d]\<rparr>"

definition jlog :: "LogEvent \<Rightarrow> World \<Rightarrow> World" where
  "jlog e w = w\<lparr>logs := logs w @ [e]\<rparr>"

subsection \<open>Configuration\<close>

text \<open>
  \<^verbatim>\<open>retries\<close> is the package variable read from RETRIES; \<^verbatim>\<open>KEY\<close> is the result of
  \<^verbatim>\<open>os.LookupEnv("KEY")\<close>: \<open>None\<close> when the variable is not set.
\<close>

record Env =
  retries :: int
  KEY :: "string option"

definition LookupEnv_KEY :: "Env \<Rightarrow> string \<times> bool" where
  "LookupEnv_KEY env = (case KEY env of None \<Rightarrow> ([], False) | Some val \<Rightarrow> (val, True))"

subsection \<open>makeRequest\<close>

text \<open>
  The names the \<^verbatim>\<open>switch\<close> of the header callback refuses to forward, compared with
  the lower-cased name of the inbound header.
\<close>

definition dropSet :: "string list" where
  "dropSet =
     [''host'', ''connection'', ''proxy-connection'', ''keep-alive'',
      ''transfer-encoding'', ''upgrade'', ''te'', ''content-length'',
      ''accept-encoding'', ''proxykey'', ''x-request-id'']"

text \<open>The callback passed to \<^verbatim>\<open>ctx.Request.Header.VisitAll\<close> in \<^verbatim>\<open>makeRequest\<close>.\<close>

definition forwardHeader :: "string \<Rightarrow> string \<Rightarrow> Request \<Rightarrow> Request" where
  "forwardHeader k v req =
     (if ToLower k \<in> set dropSet then req
      else req\<lparr>reqHeader := Header_Set (reqHeader req) k v\<rparr>)"

text \<open>
  The outbound request of one attempt, from \<^verbatim>\<open>AcquireRequest\<close> to the end of the
  header loop, statement by statement.
\<close>

definition newRequest :: "RequestCtx \<Rightarrow> string \<Rightarrow> string \<Rightarrow> Request" where
  "newRequest ctx upHost upPath =
     (let req = AcquireRequest;
          req = req\<lparr>reqMethod := ctxMethod ctx\<rparr>;
          req = req\<lparr>reqURI := ''https://'' @ upHost @ ''/'' @ upPath\<rparr>;
          req = req\<lparr>reqHost := upHost\<rparr>;
          req = req\<lparr>reqHeader := Header_Set (reqHeader req) ''User-Agent'' ''RoProxy''\<rparr>;
          req = req\<lparr>reqHeader := Header_Del (reqHeader req) ''Roblox-Id''\<rparr>;
          req = req\<lparr>reqBody := ctxBody ctx\<rparr>
      in Header_VisitAll (ctxHeader ctx) forwardHeader req)"

text \<open>
  The two durations the code sleeps for, computed as Go computes them:
  \<^verbatim>\<open>time.Duration(100*attempt) * time.Millisecond\<close> and
  \<^verbatim>\<open>time.Duration(s)*time.Second + 100*time.Millisecond\<close>.
\<close>

definition backoff :: "int \<Rightarrow> int" where
  "backoff attempt = wrap64 (wrap64 (100 * attempt) * Millisecond)"

definition retryAfterDelay :: "int \<Rightarrow> int" where
  "retryAfterDelay s = wrap64 (wrap64 (s * Second) + 100 * Millisecond)"

text \<open>
  The recursion of \<^verbatim>\<open>makeRequest\<close>. The counter \<^verbatim>\<open>attempt\<close> is an unbounded
  integer here, where Go's is an int64 that wraps around. The sum \<^verbatim>\<open>attempt+1\<close> is
  only computed where \<^verbatim>\<open>attempt \<le> retries\<close>, so the two agree when
  \<^verbatim>\<open>retries\<close> is below the largest int64, 9223372036854775807 (lemma
  \<open>attempt_increment_exact\<close>); with \<^verbatim>\<open>retries\<close> equal to it, Go's guard
  \<^verbatim>\<open>attempt > retries\<close> can never hold. The theorems on the claims that follow a
  run of the recursion are stated for \<^verbatim>\<open>retries\<close> below that bound.
\<close>

function makeRequest :: "Env \<Rightarrow> Upstream \<Rightarrow> RequestCtx \<Rightarrow> int \<Rightarrow> World \<Rightarrow> Response \<times> World" where
  "makeRequest env up ctx attempt w =
     (if attempt > retries env then
        (AcquireResponse\<lparr>StatusCode := 504, respBody := ''upstream timeout''\<rparr>, w)
      else
        let raw = RequestURI ctx;
            parts = SplitN2 (drop 1 raw) (CHR ''/'')
        in if length parts < 2 then
             (AcquireResponse\<lparr>StatusCode := 400, respBody := ''URL format invalid.''\<rparr>, w)
           else
             let upHost = parts ! 0;
                 upPath = parts ! 1;
                 req = newRequest ctx upHost upPath
             in case Do up req w of
                  (TransportError err, w1) \<Rightarrow>
                     makeRequest env up ctx (attempt + 1)
                       (Sleep (backoff attempt) (jlog (RetryErr attempt raw err) w1))
                | (Received resp, w1) \<Rightarrow>
                     let sc = StatusCode resp
                     in if sc = 429 then
                          (let ra = Header_Peek (respHeader resp) ''Retry-After''
                           in if length ra > 0 then
                                (let s = fst (Atoi ra)
                                 in if s > 0 then (resp, Sleep (retryAfterDelay s) w1)
                                    else (resp, w1))
                              else (resp, w1))
                        else if sc \<ge> 500 \<and> sc \<le> 599 then
                          makeRequest env up ctx (attempt + 1)
                            (Sleep (backoff attempt) (jlog (Retry5xx attempt sc raw) w1))
                        else (resp, w1))"
  by pat_completeness auto
termination
  by (relation "measure (\<lambda>(env, up, ctx, attempt, w). nat (retries env + 1 - attempt))") auto

declare makeRequest.simps [simp del]

subsection \<open>requestHandler\<close>

text \<open>
  The last block of the handler: it copies the final response of \<^verbatim>\<open>makeRequest\<close>
  onto the response of \<^verbatim>\<open>ctx\<close>, in the order of the source: the status, every header
  through \<^verbatim>\<open>Set\<close>, the two headers of the proxy, the body.
\<close>

definition relay :: "Response \<Rightarrow> Response \<Rightarrow> Response" where
  "relay out response =
     (let out = out\<lparr>StatusCode := StatusCode response\<rparr>;
          out = ResponseHeader_VisitAll (respHeader response)
                  (\<lambda>key value out. out\<lparr>respHeader := Header_Set (respHeader out) key value\<rparr>)
                  out;
          out = out\<lparr>respHeader :=
                  Header_Set (respHeader out) ''X-Proxy-Upstream-Status''
                    (Itoa (StatusCode response))\<rparr>;
          out = out\<lparr>respHeader := Header_Set (respHeader out) ''Via'' ''roproxy-lite''\<rparr>
      in out\<lparr>respBody := respBody response\<rparr>)"

text \<open>
  The handler fills the response of \<^verbatim>\<open>ctx\<close>, which starts out blank; the model
  returns that response and the world after the call.
\<close>

definition requestHandler :: "Env \<Rightarrow> Upstream \<Rightarrow> RequestCtx \<Rightarrow> World \<Rightarrow> Response \<times> World" where
  "requestHandler env up ctx w =
     (let out = AcquireResponse;
          (val, ok) = LookupEnv_KEY env
      in if ok \<and> Header_Peek (ctxHeader ctx) ''PROXYKEY'' \<noteq> val then
           (out\<lparr>StatusCode := 407, respBody := ''Missing or invalid PROXYKEY header.''\<rparr>, w)
         else if length (SplitN2 (drop 1 (RequestURI ctx)) (CHR ''/'')) < 2 then
           (out\<lparr>StatusCode := 400, respBody := ''URL format invalid.''\<rparr>, w)
         else
           case makeRequest env up ctx 1 w of
             (response, w') \<Rightarrow> (relay out response, w'))"

subsection \<open>fasthttp: the path the client requests\<close>












subsection \<open>Notions used in the statements\<close>

text \<open>
  The two parts of the request target, the request every attempt sends for it, and the
  world after one more call of \<^verbatim>\<open>client.Do\<close>.
\<close>

definition targetParts :: "RequestCtx \<Rightarrow> string list" where
  "targetParts ctx = SplitN2 (drop 1 (RequestURI ctx)) (CHR ''/'')"

definition upstreamRequest :: "RequestCtx \<Rightarrow> Request" where
  "upstreamRequest ctx = newRequest ctx (targetParts ctx ! 0) (targetParts ctx ! 1)"

definition afterCall :: "RequestCtx \<Rightarrow> World \<Rightarrow> World" where
  "afterCall ctx w = w\<lparr>calls := calls w @ [upstreamRequest ctx]\<rparr>"

text \<open>A request passes the check of the handler's first statement.\<close>

definition authorized :: "Env \<Rightarrow> RequestCtx \<Rightarrow> bool" where
  "authorized env ctx =
     (case KEY env of
        None \<Rightarrow> True
      | Some val \<Rightarrow> Header_Peek (ctxHeader ctx) ''PROXYKEY'' = val)"

text \<open>The three responses the proxy makes up itself.\<close>

definition proxyAuthRequired :: Response where
  "proxyAuthRequired =
     \<lparr>StatusCode = 407, respHeader = [], respBody = ''Missing or invalid PROXYKEY header.''\<rparr>"

definition badRequest :: Response where
  "badRequest = \<lparr>StatusCode = 400, respHeader = [], respBody = ''URL format invalid.''\<rparr>"

definition gatewayTimeout :: Response where
  "gatewayTimeout = \<lparr>StatusCode = 504, respHeader = [], respBody = ''upstream timeout''\<rparr>"

text \<open>
  The results after which \<^verbatim>\<open>makeRequest\<close> calls itself, the event it logs for
  each, and the world after \<open>n\<close> such results in a row, the first of them on attempt
  \<open>attempt\<close>.
\<close>

fun retryable :: "AttemptResult \<Rightarrow> bool" where
  "retryable (TransportError err) = True"
| "retryable (Received resp) = (500 \<le> StatusCode resp \<and> StatusCode resp \<le> 599)"

fun retryEvent :: "int \<Rightarrow> string \<Rightarrow> AttemptResult \<Rightarrow> LogEvent" where
  "retryEvent attempt raw (TransportError err) = RetryErr attempt raw err"
| "retryEvent attempt raw (Received resp) = Retry5xx attempt (StatusCode resp) raw"

fun loggedAttempt :: "LogEvent \<Rightarrow> int" where
  "loggedAttempt (RetryErr attempt raw err) = attempt"
| "loggedAttempt (Retry5xx attempt sc raw) = attempt"

fun retried :: "Upstream \<Rightarrow> RequestCtx \<Rightarrow> int \<Rightarrow> nat \<Rightarrow> World \<Rightarrow> World" where
  "retried up ctx attempt 0 w = w"
| "retried up ctx attempt (Suc n) w =
     retried up ctx (attempt + 1) n
       (Sleep (backoff attempt)
          (jlog (retryEvent attempt (RequestURI ctx)
                   (up (length (calls w)) (upstreamRequest ctx)))
             (afterCall ctx w)))"

text \<open>The names of a header set as the drop-set sees them, and the entries it lets through.\<close>

definition lowerNames :: "Header \<Rightarrow> string list" where
  "lowerNames h = map (\<lambda>(k, v). ToLower k) h"


subsection \<open>Example inputs\<close>

definition noWorld :: World where
  "noWorld = \<lparr>calls = [], sleeps = [], logs = []\<rparr>"

definition getRequest :: "string \<Rightarrow> Header \<Rightarrow> RequestCtx" where
  "getRequest target h = \<lparr>ctxMethod = ''GET'', ctxTarget = target, ctxHeader = h, ctxBody = []\<rparr>"

text \<open>An upstream that always answers with the same response.\<close>

definition answering :: "Response \<Rightarrow> Upstream" where
  "answering resp n req = Received resp"

text \<open>An upstream whose first \<open>N\<close> calls fail in transport and that answers from then on.\<close>

definition failingFirst :: "nat \<Rightarrow> Response \<Rightarrow> Upstream" where
  "failingFirst N resp n req = (if n < N then TransportError ''dial timeout'' else Received resp)"

definition plainResponse :: "int \<Rightarrow> Header \<Rightarrow> string \<Rightarrow> Response" where
  "plainResponse sc h b = \<lparr>StatusCode = sc, respHeader = h, respBody = b\<rparr>"

section \<open>Lemmas on the retry recursion and the handler\<close>

lemma length_targetParts: "length (targetParts ctx) = 1 \<or> length (targetParts ctx) = 2"
  by (simp add: targetParts_def SplitN2_def)

lemma makeRequest_exhausted:
  "retries env < attempt \<Longrightarrow> makeRequest env up ctx attempt w = (gatewayTimeout, w)"
  by (simp add: makeRequest.simps gatewayTimeout_def AcquireResponse_def)

lemma makeRequest_malformed:
  "attempt \<le> retries env \<Longrightarrow> length (targetParts ctx) < 2 \<Longrightarrow>
   makeRequest env up ctx attempt w = (badRequest, w)"
  by (simp add: makeRequest.simps targetParts_def badRequest_def AcquireResponse_def)

lemma makeRequest_retry:
  "attempt \<le> retries env \<Longrightarrow> length (targetParts ctx) = 2 \<Longrightarrow>
   retryable (up (length (calls w)) (upstreamRequest ctx)) \<Longrightarrow>
   makeRequest env up ctx attempt w =
     makeRequest env up ctx (attempt + 1) (retried up ctx attempt 1 w)"
  by (subst makeRequest.simps, cases "up (length (calls w)) (upstreamRequest ctx)")
     (simp_all add: targetParts_def upstreamRequest_def afterCall_def Do_def Let_def)

lemma makeRequest_429:
  "attempt \<le> retries env \<Longrightarrow> length (targetParts ctx) = 2 \<Longrightarrow>
   up (length (calls w)) (upstreamRequest ctx) = Received resp \<Longrightarrow>
   StatusCode resp = 429 \<Longrightarrow>
   makeRequest env up ctx attempt w =
     (resp,
      if Header_Peek (respHeader resp) ''Retry-After'' \<noteq> [] \<and>
         0 < fst (Atoi (Header_Peek (respHeader resp) ''Retry-After''))
      then Sleep (retryAfterDelay (fst (Atoi (Header_Peek (respHeader resp) ''Retry-After''))))
             (afterCall ctx w)
      else afterCall ctx w)"
  by (subst makeRequest.simps)
     (simp add: targetParts_def upstreamRequest_def afterCall_def Do_def Let_def)

lemma makeRequest_final:
  "attempt \<le> retries env \<Longrightarrow> length (targetParts ctx) = 2 \<Longrightarrow>
   up (length (calls w)) (upstreamRequest ctx) = Received resp \<Longrightarrow>
   StatusCode resp \<noteq> 429 \<Longrightarrow> \<not> retryable (Received resp) \<Longrightarrow>
   makeRequest env up ctx attempt w = (resp, afterCall ctx w)"
  by (subst makeRequest.simps)
     (auto simp add: targetParts_def upstreamRequest_def afterCall_def Do_def Let_def)

lemma calls_Sleep [simp]: "calls (Sleep d w) = calls w"
  by (simp add: Sleep_def)

lemma calls_jlog [simp]: "calls (jlog e w) = calls w"
  by (simp add: jlog_def)

lemma calls_afterCall [simp]: "calls (afterCall ctx w) = calls w @ [upstreamRequest ctx]"
  by (simp add: afterCall_def)

lemma calls_retried:
  "calls (retried up ctx attempt n w) = calls w @ replicate n (upstreamRequest ctx)"
  by (induction n arbitrary: attempt w)
     (simp_all add: Sleep_def jlog_def afterCall_def replicate_append_same)

lemma sleeps_retried:
  "sleeps (retried up ctx attempt n w) = sleeps w @ map backoff [attempt..attempt + int n - 1]"
proof (induction n arbitrary: attempt w)
  case 0
  then show ?case by simp
next
  case (Suc n)
  have "[attempt..attempt + int (Suc n) - 1] = attempt # [attempt + 1..attempt + 1 + int n - 1]"
    by (subst upto_rec1) simp_all
  then show ?case
    by (simp add: Suc.IH Sleep_def jlog_def afterCall_def)
qed

lemma loggedAttempt_retryEvent: "loggedAttempt (retryEvent attempt raw r) = attempt"
  by (cases r) simp_all

lemma logs_retried:
  "map loggedAttempt (logs (retried up ctx attempt n w)) =
     map loggedAttempt (logs w) @ [attempt..attempt + int n - 1]"
proof (induction n arbitrary: attempt w)
  case 0
  then show ?case by simp
next
  case (Suc n)
  have "[attempt..attempt + int (Suc n) - 1] = attempt # [attempt + 1..attempt + 1 + int n - 1]"
    by (subst upto_rec1) simp_all
  then show ?case
    by (simp add: Suc.IH Sleep_def jlog_def afterCall_def loggedAttempt_retryEvent)
qed

lemma makeRequest_retried:
  "length (targetParts ctx) = 2 \<Longrightarrow> attempt + int n \<le> retries env + 1 \<Longrightarrow>
   (\<And>k. k < n \<Longrightarrow> retryable (up (length (calls w) + k) (upstreamRequest ctx))) \<Longrightarrow>
   makeRequest env up ctx attempt w =
     makeRequest env up ctx (attempt + int n) (retried up ctx attempt n w)"
proof (induction n arbitrary: attempt w)
  case 0
  then show ?case by simp
next
  case (Suc n)
  let ?w1 = "retried up ctx attempt 1 w"
  have first: "retryable (up (length (calls w)) (upstreamRequest ctx))"
    using Suc.prems(3) [of 0] by simp
  have rest: "retryable (up (length (calls ?w1) + k) (upstreamRequest ctx))" if "k < n" for k
    using Suc.prems(3) [of "Suc k"] that by simp
  have "makeRequest env up ctx attempt w = makeRequest env up ctx (attempt + 1) ?w1"
    using Suc.prems(1,2) first by (intro makeRequest_retry) simp_all
  also have "\<dots> = makeRequest env up ctx (attempt + 1 + int n) (retried up ctx (attempt + 1) n ?w1)"
    using Suc.prems(1,2) rest by (intro Suc.IH) simp_all
  finally show ?case by (simp add: add.assoc)
qed


lemma requestHandler_unauthorized:
  "\<not> authorized env ctx \<Longrightarrow> requestHandler env up ctx w = (proxyAuthRequired, w)"
  by (auto simp add: requestHandler_def authorized_def LookupEnv_KEY_def proxyAuthRequired_def
        AcquireResponse_def split: option.splits)

lemma requestHandler_malformed:
  "authorized env ctx \<Longrightarrow> length (targetParts ctx) < 2 \<Longrightarrow>
   requestHandler env up ctx w = (badRequest, w)"
  by (auto simp add: requestHandler_def authorized_def LookupEnv_KEY_def badRequest_def
        targetParts_def AcquireResponse_def split: option.splits)

lemma requestHandler_relay:
  "authorized env ctx \<Longrightarrow> length (targetParts ctx) = 2 \<Longrightarrow>
   requestHandler env up ctx w =
     (relay AcquireResponse (fst (makeRequest env up ctx 1 w)), snd (makeRequest env up ctx 1 w))"
  by (auto simp add: requestHandler_def authorized_def LookupEnv_KEY_def
        targetParts_def split: option.splits prod.splits)

lemma relay_gatewayTimeout:
  "relay AcquireResponse gatewayTimeout =
     \<lparr>StatusCode = 504,
      respHeader = [(''Content-Type'', ''text/plain; charset=utf-8''),
                    (''X-Proxy-Upstream-Status'', ''504''), (''Via'', ''roproxy-lite'')],
      respBody = ''upstream timeout''\<rparr>"
  by code_simp

lemma relay_status_body:
  "StatusCode (relay out response) = StatusCode response \<and>
   respBody (relay out response) = respBody response"
proof -
  have "StatusCode (foldl (\<lambda>acc (k, v). acc\<lparr>respHeader := Header_Set (respHeader acc) k v\<rparr>) r hs) =
          StatusCode r" for r :: Response and hs
    by (induction hs arbitrary: r) auto
  then show ?thesis
    by (simp add: relay_def Let_def ResponseHeader_VisitAll_def Header_VisitAll_def)
qed

lemma attempt_increment_exact:
  assumes "- 9223372036854775808 \<le> attempt" and "attempt \<le> retries env"
    and "retries env < 9223372036854775807"
  shows "wrap64 (attempt + 1) = attempt + 1"
  using assms by (simp add: wrap64_def)

lemma makeRequest_all_retryable:
  assumes wf: "length (targetParts ctx) = 2"
    and all: "\<And>k. k < nat (retries env) \<Longrightarrow>
                retryable (up (length (calls w) + k) (upstreamRequest ctx))"
  shows "makeRequest env up ctx 1 w = (gatewayTimeout, retried up ctx 1 (nat (retries env)) w)"
proof (cases "1 \<le> retries env")
  case True
  have "makeRequest env up ctx 1 w =
          makeRequest env up ctx (1 + int (nat (retries env))) (retried up ctx 1 (nat (retries env)) w)"
    using wf True all by (intro makeRequest_retried) simp_all
  also have "\<dots> = (gatewayTimeout, retried up ctx 1 (nat (retries env)) w)"
    using True by (intro makeRequest_exhausted) simp
  finally show ?thesis .
next
  case False
  then have "nat (retries env) = 0" by simp
  with False show ?thesis by (simp add: makeRequest_exhausted)
qed

lemma sleeps_afterCall [simp]: "sleeps (afterCall ctx w) = sleeps w"
  by (simp add: afterCall_def)

lemma backoff_linear:
  assumes "1 \<le> a" and "a \<le> 92233720368"
  shows "backoff a = a * (100 * Millisecond)"
proof -
  have "wrap64 (100 * a) = 100 * a"
    using assms by (simp add: wrap64_def)
  moreover have "wrap64 (100 * a * 1000000) = 100 * a * 1000000"
    using assms by (simp add: wrap64_def)
  ultimately show ?thesis
    by (simp add: backoff_def Millisecond_def)
qed

lemma upto_from_1: "[1..1 + int (nat r) - 1] = [1..r]"
  by (cases "0 \<le> r") simp_all

lemma targetParts_short: "(length (targetParts ctx) < 2) = (CHR ''/'' \<notin> set (drop 1 (RequestURI ctx)))"
  by (simp add: targetParts_def SplitN2_def)

lemma targetParts_two: "(length (targetParts ctx) = 2) = (CHR ''/'' \<in> set (drop 1 (RequestURI ctx)))"
  by (simp add: targetParts_def SplitN2_def)

lemma Header_Set_not_Nil: "Header_Set h k v \<noteq> []"
  by (cases h) (auto split: if_splits)

lemma relay_has_headers: "respHeader (relay out response) \<noteq> []"
  by (simp add: relay_def Let_def Header_Set_not_Nil)

lemma makeRequest_env:
  "retries env' = retries env \<Longrightarrow>
   makeRequest env' up ctx attempt w = makeRequest env up ctx attempt w"
proof (induction "nat (retries env + 1 - attempt)" arbitrary: attempt w)
  case 0
  then show ?case by (simp add: makeRequest_exhausted)
next
  case (Suc m)
  then have le: "attempt \<le> retries env" "attempt \<le> retries env'" by simp_all
  have step: "makeRequest env' up ctx (attempt + 1) w' = makeRequest env up ctx (attempt + 1) w'" for w'
    using Suc.hyps(2) Suc.prems by (intro Suc.hyps(1)) simp_all
  show ?case
    by (subst makeRequest.simps, subst (2) makeRequest.simps)
       (simp add: Suc.prems step Let_def split: prod.splits AttemptResult.splits)
qed

lemma makeRequest_calls:
  "\<exists>n. calls (snd (makeRequest env up ctx attempt w)) = calls w @ replicate n (upstreamRequest ctx) \<and>
       n \<le> nat (retries env + 1 - attempt) \<and>
       (attempt \<le> retries env \<and> length (targetParts ctx) = 2 \<longrightarrow> 1 \<le> n)"
proof (induction "nat (retries env + 1 - attempt)" arbitrary: attempt w)
  case 0
  then show ?case by (simp add: makeRequest_exhausted)
next
  case (Suc m)
  then have le: "attempt \<le> retries env" by simp
  show ?case
  proof (cases "length (targetParts ctx) = 2")
    case False
    then have "length (targetParts ctx) < 2"
      using length_targetParts [of ctx] by auto
    with le False show ?thesis by (simp add: makeRequest_malformed)
  next
    case wf: True
    let ?r = "up (length (calls w)) (upstreamRequest ctx)"
    show ?thesis
    proof (cases "retryable ?r")
      case True
      let ?w1 = "retried up ctx attempt 1 w"
      have eq: "makeRequest env up ctx attempt w = makeRequest env up ctx (attempt + 1) ?w1"
        using le wf True by (rule makeRequest_retry)
      have "m = nat (retries env + 1 - (attempt + 1))"
        using Suc.hyps(2) by simp
      from Suc.hyps(1) [OF this, of ?w1]
      obtain n where n: "calls (snd (makeRequest env up ctx (attempt + 1) ?w1)) =
                           calls ?w1 @ replicate n (upstreamRequest ctx)"
                        "n \<le> nat (retries env + 1 - (attempt + 1))"
        by blast
      have "calls (snd (makeRequest env up ctx attempt w)) =
              calls w @ replicate (Suc n) (upstreamRequest ctx)"
        using n(1) by (simp add: eq)
      moreover have "Suc n \<le> nat (retries env + 1 - attempt)"
        using n(2) le by simp
      ultimately show ?thesis
        by (intro exI [of _ "Suc n"]) simp
    next
      case False
      then obtain resp where resp: "?r = Received resp"
        by (cases ?r) simp_all
      have "calls (snd (makeRequest env up ctx attempt w)) = calls w @ replicate 1 (upstreamRequest ctx)"
      proof (cases "StatusCode resp = 429")
        case True
        then show ?thesis
          using le wf resp by (simp add: makeRequest_429)
      next
        case ne: False
        then show ?thesis
          using le wf resp False by (simp add: makeRequest_final)
      qed
      moreover have "1 \<le> nat (retries env + 1 - attempt)"
        using le by simp
      ultimately show ?thesis
        by (intro exI [of _ 1]) simp
    qed
  qed
qed

lemma requestHandler_authorized:
  "authorized env ctx \<Longrightarrow>
   requestHandler env up ctx w =
     (if length (targetParts ctx) < 2 then (badRequest, w)
      else (relay AcquireResponse (fst (makeRequest env up ctx 1 w)),
            snd (makeRequest env up ctx 1 w)))"
  using length_targetParts [of ctx]
  by (auto simp add: requestHandler_malformed requestHandler_relay)

lemma requestHandler_not_407:
  assumes "authorized env ctx"
  shows "fst (requestHandler env up ctx w) \<noteq> proxyAuthRequired"
proof (cases "length (targetParts ctx) < 2")
  case True
  with assms show ?thesis
    by (simp add: requestHandler_malformed badRequest_def proxyAuthRequired_def)
next
  case False
  then have "respHeader (fst (requestHandler env up ctx w)) \<noteq> []"
    using assms by (simp add: requestHandler_authorized relay_has_headers)
  then show ?thesis
    by (auto simp add: proxyAuthRequired_def)
qed

lemma requestHandler_without_KEY:
  assumes "authorized env ctx"
  shows "requestHandler env up ctx w = requestHandler (env\<lparr>KEY := None\<rparr>) up ctx w"
proof -
  have "authorized (env\<lparr>KEY := None\<rparr>) ctx"
    by (simp add: authorized_def)
  moreover have "makeRequest (env\<lparr>KEY := None\<rparr>) up ctx 1 w = makeRequest env up ctx 1 w"
    by (rule makeRequest_env) simp
  ultimately show ?thesis
    using assms by (simp add: requestHandler_authorized)
qed

lemma Header_Peek_absent:
  "\<forall>(k, v) \<in> set h. \<not> sameKey k key \<Longrightarrow> Header_Peek h key = []"
  by (induction h) auto

lemma lowerNames_Cons [simp]: "lowerNames ((k, v) # h) = ToLower k # lowerNames h"
  by (simp add: lowerNames_def)

lemma lowerNames_Nil [simp]: "lowerNames [] = []"
  by (simp add: lowerNames_def)

lemma lowerNames_append [simp]: "lowerNames (a @ b) = lowerNames a @ lowerNames b"
  by (simp add: lowerNames_def)



lemma Header_Set_new:
  "ToLower k \<notin> set (lowerNames h) \<Longrightarrow> Header_Set h k v = h @ [(k, v)]"
  by (induction h) (auto simp add: lowerNames_def sameKey_def)


lemma Header_Peek_append:
  "Header_Peek (a @ b) key =
     (if ToLower key \<in> set (lowerNames a) then Header_Peek a key else Header_Peek b key)"
  by (induction a) (auto simp add: lowerNames_def sameKey_def)


lemma foldl_Set_distinct:
  "distinct (lowerNames hs) \<Longrightarrow> set (lowerNames hs) \<inter> set (lowerNames acc) = {} \<Longrightarrow>
   foldl (\<lambda>acc (k, v). Header_Set acc k v) acc hs = acc @ hs"
proof (induction hs arbitrary: acc)
  case Nil
  then show ?case by simp
next
  case (Cons x hs)
  obtain k v where x: "x = (k, v)" by (cases x)
  from Cons.prems have fresh: "ToLower k \<notin> set (lowerNames acc)"
    and d: "distinct (lowerNames hs)"
    and nk: "ToLower k \<notin> set (lowerNames hs)"
    and disj: "set (lowerNames hs) \<inter> set (lowerNames acc) = {}"
    by (auto simp add: x lowerNames_def)
  have step: "Header_Set acc k v = acc @ [(k, v)]"
    using fresh by (rule Header_Set_new)
  have "set (lowerNames hs) \<inter> set (lowerNames (acc @ [(k, v)])) = {}"
    using disj nk by (auto simp add: lowerNames_def)
  with d have "foldl (\<lambda>acc (k, v). Header_Set acc k v) (acc @ [(k, v)]) hs = (acc @ [(k, v)]) @ hs"
    by (rule Cons.IH)
  then show ?case
    by (simp add: x step)
qed

lemma foldl_Set_head:
  "foldl (\<lambda>acc (k, v). Header_Set acc k v) ((k0, d) # rest) hs =
     (k0, Header_Peek (rev hs @ [(k0, d)]) k0) #
       foldl (\<lambda>acc (k, v). Header_Set acc k v) rest (Header_Del hs k0)"
proof (induction hs arbitrary: d rest)
  case Nil
  then show ?case by (simp add: Header_Del_def sameKey_def)
next
  case (Cons x hs)
  obtain k v where x: "x = (k, v)" by (cases x)
  show ?case
  proof (cases "sameKey k0 k")
    case True
    then have same: "ToLower k = ToLower k0" by (simp add: sameKey_def)
    have "Header_Peek (rev hs @ [(k0, v)]) k0 = Header_Peek (rev hs @ [(k, v), (k0, d)]) k0"
      by (simp add: Header_Peek_append sameKey_def same)
    with True show ?thesis
      by (simp add: x Cons.IH Header_Del_def sameKey_def)
  next
    case False
    then have diff: "ToLower k \<noteq> ToLower k0" by (auto simp add: sameKey_def)
    have "Header_Peek (rev hs @ [(k0, d)]) k0 = Header_Peek (rev hs @ [(k, v), (k0, d)]) k0"
      using diff by (simp add: Header_Peek_append sameKey_def)
    with False diff show ?thesis
      by (simp add: x Cons.IH Header_Del_def sameKey_def)
  qed
qed



























lemma logs_afterCall [simp]: "logs (afterCall ctx w) = logs w"
  by (simp add: afterCall_def)

lemma logs_Sleep [simp]: "logs (Sleep d w) = logs w"
  by (simp add: Sleep_def)

lemma upto_shift: "attempt # [attempt + 1..attempt + 1 + int m - 1] = [attempt..attempt + int (Suc m) - 1]"
  by (subst (2) upto_rec1) simp_all

lemma makeRequest_trace:
  "\<exists>n m. calls (snd (makeRequest env up ctx attempt w)) =
            calls w @ replicate n (upstreamRequest ctx) \<and>
         map loggedAttempt (logs (snd (makeRequest env up ctx attempt w))) =
            map loggedAttempt (logs w) @ [attempt..attempt + int m - 1] \<and>
         m \<le> n \<and> n \<le> nat (retries env + 1 - attempt)"
proof (induction "nat (retries env + 1 - attempt)" arbitrary: attempt w)
  case 0
  then have "makeRequest env up ctx attempt w = (gatewayTimeout, w)"
    by (simp add: makeRequest_exhausted)
  then show ?case
    by (intro exI [of _ 0]) simp
next
  case (Suc b)
  then have le: "attempt \<le> retries env" by simp
  show ?case
  proof (cases "length (targetParts ctx) = 2")
    case False
    then have "length (targetParts ctx) < 2"
      using length_targetParts [of ctx] by auto
    with le have "makeRequest env up ctx attempt w = (badRequest, w)"
      by (simp add: makeRequest_malformed)
    then show ?thesis
      by (intro exI [of _ 0]) simp
  next
    case wf: True
    let ?r = "up (length (calls w)) (upstreamRequest ctx)"
    show ?thesis
    proof (cases "retryable ?r")
      case True
      let ?w1 = "retried up ctx attempt 1 w"
      have eq: "makeRequest env up ctx attempt w = makeRequest env up ctx (attempt + 1) ?w1"
        using le wf True by (rule makeRequest_retry)
      have "b = nat (retries env + 1 - (attempt + 1))"
        using Suc.hyps(2) by simp
      from Suc.hyps(1) [OF this, of ?w1]
      obtain n m where n: "calls (snd (makeRequest env up ctx (attempt + 1) ?w1)) =
                           calls ?w1 @ replicate n (upstreamRequest ctx)"
        and m: "map loggedAttempt (logs (snd (makeRequest env up ctx (attempt + 1) ?w1))) =
                  map loggedAttempt (logs ?w1) @ [attempt + 1..attempt + 1 + int m - 1]"
        and mn: "m \<le> n" and nb: "n \<le> nat (retries env + 1 - (attempt + 1))"
        by blast
      have c: "calls (snd (makeRequest env up ctx attempt w)) =
              calls w @ replicate (Suc n) (upstreamRequest ctx)"
        using n by (simp add: eq)
      have "map loggedAttempt (logs ?w1) = map loggedAttempt (logs w) @ [attempt]"
        by (simp add: jlog_def loggedAttempt_retryEvent)
      then have l: "map loggedAttempt (logs (snd (makeRequest env up ctx attempt w))) =
              map loggedAttempt (logs w) @ [attempt..attempt + int (Suc m) - 1]"
        using m upto_shift [of attempt m] by (simp add: eq del: retried.simps)
      have "Suc m \<le> Suc n" "Suc n \<le> nat (retries env + 1 - attempt)"
        using mn nb le by simp_all
      with c l show ?thesis
        by blast
    next
      case False
      then obtain resp where resp: "?r = Received resp"
        by (cases ?r) simp_all
      have "snd (makeRequest env up ctx attempt w) = afterCall ctx w \<or>
            (\<exists>d. snd (makeRequest env up ctx attempt w) = Sleep d (afterCall ctx w))"
      proof (cases "StatusCode resp = 429")
        case True
        then show ?thesis
          using le wf resp by (auto simp add: makeRequest_429)
      next
        case ne: False
        then show ?thesis
          using le wf resp False by (simp add: makeRequest_final)
      qed
      then have "calls (snd (makeRequest env up ctx attempt w)) =
                   calls w @ replicate 1 (upstreamRequest ctx)"
        and "map loggedAttempt (logs (snd (makeRequest env up ctx attempt w))) =
               map loggedAttempt (logs w) @ [attempt..attempt + int 0 - 1]"
        by auto
      moreover have "(0::nat) \<le> 1" "1 \<le> nat (retries env + 1 - attempt)"
        using le by simp_all
      ultimately show ?thesis
        by blast
    qed
  qed
qed

lemma retryAfterDelay_exact:
  assumes "0 < s" and "s \<le> 9223372036"
  shows "retryAfterDelay s = s * Second + 100 * Millisecond"
proof -
  have "wrap64 (s * 1000000000) = s * 1000000000"
    using assms by (simp add: wrap64_def)
  moreover have "wrap64 (s * 1000000000 + 100000000) = s * 1000000000 + 100000000"
    using assms by (simp add: wrap64_def)
  ultimately show ?thesis
    by (simp add: retryAfterDelay_def Second_def Millisecond_def)
qed

lemma makeRequest_429_is_final:
  assumes "attempt \<le> retries env"
    and "length (targetParts ctx) = 2"
    and "up (length (calls w)) (upstreamRequest ctx) = Received resp"
    and "StatusCode resp = 429"
  shows "fst (makeRequest env up ctx attempt w) = resp \<and>
         calls (snd (makeRequest env up ctx attempt w)) = calls w @ [upstreamRequest ctx] \<and>
         sleeps (snd (makeRequest env up ctx attempt w)) =
           sleeps w @
             (if Header_Peek (respHeader resp) ''Retry-After'' \<noteq> [] \<and>
                 0 < fst (Atoi (Header_Peek (respHeader resp) ''Retry-After''))
              then [retryAfterDelay (fst (Atoi (Header_Peek (respHeader resp) ''Retry-After'')))]
              else [])"
  using assms by (simp add: makeRequest_429 Sleep_def)

subsection \<open>Paths that fasthttp leaves as they are\<close>








section \<open>The claims\<close>

subsection \<open>C1: every attempt answers 5xx\<close>

text \<open>
  C1, as amended. When the request passes the key check, its target splits in two,
  \<^verbatim>\<open>retries\<close> is below the largest int64 and every upstream attempt up to
  \<^verbatim>\<open>retries\<close> answers with a status from 500 to 599, the response relayed to the
  client is the synthetic one, with the status 504 and the body \<^verbatim>\<open>upstream timeout\<close>,
  not the last 5xx response of the upstream, and exactly \<^verbatim>\<open>retries\<close> upstream calls
  are made (none when \<^verbatim>\<open>retries\<close> is not positive).
\<close>

theorem C1_all_5xx_ends_in_synthetic_504:
  assumes "authorized env ctx"
    and "length (targetParts ctx) = 2"
    and "retries env < 9223372036854775807"
    and "\<forall>k < nat (retries env). \<exists>resp.
           up (length (calls w) + k) (upstreamRequest ctx) = Received resp \<and>
           500 \<le> StatusCode resp \<and> StatusCode resp \<le> 599"
  shows "StatusCode (fst (requestHandler env up ctx w)) = 504 \<and>
         respBody (fst (requestHandler env up ctx w)) = ''upstream timeout'' \<and>
         calls (snd (requestHandler env up ctx w)) =
           calls w @ replicate (nat (retries env)) (upstreamRequest ctx)"
proof -
  have "retryable (up (length (calls w) + k) (upstreamRequest ctx))" if "k < nat (retries env)" for k
    using assms(4) that by fastforce
  then have "makeRequest env up ctx 1 w = (gatewayTimeout, retried up ctx 1 (nat (retries env)) w)"
    using assms(2) by (intro makeRequest_all_retryable)
  then show ?thesis
    using assms(1,2)
    by (simp add: requestHandler_relay relay_status_body calls_retried gatewayTimeout_def)
qed

text \<open>
  C1 as stated fails: with \<^verbatim>\<open>retries = 2\<close> and an upstream that answers 503 to every
  call, the client receives 504 \<^verbatim>\<open>upstream timeout\<close> after two calls, not 503.
\<close>

theorem C1_counterexample:
  "StatusCode (fst (requestHandler \<lparr>retries = 2, KEY = None\<rparr>
       (answering (plainResponse 503 [] ''unavailable''))
       (getRequest ''/example.com/foo'' []) noWorld)) = 504 \<and>
   StatusCode (fst (requestHandler \<lparr>retries = 2, KEY = None\<rparr>
       (answering (plainResponse 503 [] ''unavailable''))
       (getRequest ''/example.com/foo'' []) noWorld)) \<noteq> 503 \<and>
   respBody (fst (requestHandler \<lparr>retries = 2, KEY = None\<rparr>
       (answering (plainResponse 503 [] ''unavailable''))
       (getRequest ''/example.com/foo'' []) noWorld)) = ''upstream timeout'' \<and>
   length (calls (snd (requestHandler \<lparr>retries = 2, KEY = None\<rparr>
       (answering (plainResponse 503 [] ''unavailable''))
       (getRequest ''/example.com/foo'' []) noWorld))) = 2"
  by code_simp

text \<open>The amended C1 at that input.\<close>

theorem C1_witness:
  "authorized \<lparr>retries = 2, KEY = None\<rparr> (getRequest ''/example.com/foo'' []) \<and>
   length (targetParts (getRequest ''/example.com/foo'' [])) = 2 \<and>
   retries \<lparr>retries = 2, KEY = None\<rparr> < 9223372036854775807 \<and>
   answering (plainResponse 503 [] ''unavailable'') 1 (upstreamRequest (getRequest ''/example.com/foo'' []))
     = Received (plainResponse 503 [] ''unavailable'') \<and>
   StatusCode (fst (requestHandler \<lparr>retries = 2, KEY = None\<rparr>
       (answering (plainResponse 503 [] ''unavailable''))
       (getRequest ''/example.com/foo'' []) noWorld)) = 504 \<and>
   respBody (fst (requestHandler \<lparr>retries = 2, KEY = None\<rparr>
       (answering (plainResponse 503 [] ''unavailable''))
       (getRequest ''/example.com/foo'' []) noWorld)) = ''upstream timeout'' \<and>
   length (calls (snd (requestHandler \<lparr>retries = 2, KEY = None\<rparr>
       (answering (plainResponse 503 [] ''unavailable''))
       (getRequest ''/example.com/foo'' []) noWorld))) = 2"
proof -
  let ?env = "\<lparr>retries = 2, KEY = None\<rparr>"
  let ?ctx = "getRequest ''/example.com/foo'' []"
  let ?up = "answering (plainResponse 503 [] ''unavailable'')"
  have a: "authorized ?env ?ctx" by code_simp
  have b: "length (targetParts ?ctx) = 2" by code_simp
  have r: "retries ?env < 9223372036854775807" by simp
  have c: "\<forall>k < nat (retries ?env). \<exists>resp.
             ?up (length (calls noWorld) + k) (upstreamRequest ?ctx) = Received resp \<and>
             500 \<le> StatusCode resp \<and> StatusCode resp \<le> 599"
    by (simp add: answering_def plainResponse_def)
  have d: "?up 1 (upstreamRequest ?ctx) = Received (plainResponse 503 [] ''unavailable'')"
    by (simp add: answering_def)
  show ?thesis
    using C1_all_5xx_ends_in_synthetic_504 [where up = ?up and w = noWorld, OF a b r c] a b r d
    by (simp add: noWorld_def)
qed

subsection \<open>C2: transport failures\<close>

text \<open>
  C2, as amended. Let \<^verbatim>\<open>retries\<close> be below the largest int64, and let the first
  \<open>N\<close> upstream attempts of a request that passes the key check and whose target splits
  in two fail in transport. When \<open>N\<close> is at least \<^verbatim>\<open>retries\<close>, the client receives
  the synthetic response, with the status 504 and the body \<^verbatim>\<open>upstream timeout\<close>,
  exactly \<^verbatim>\<open>retries\<close> upstream calls are made, and the sleeps are those of the
  attempts 1 to \<^verbatim>\<open>retries\<close>. When \<open>N\<close> is below \<^verbatim>\<open>retries\<close> and the next
  attempt is answered with a status that is neither 429 nor 5xx, the client receives the
  status and the body of that answer, after \<open>N + 1\<close> calls and the sleeps of the
  attempts 1 to \<open>N\<close>. The sleep after attempt \<open>a\<close> is the Go duration
  \<^verbatim>\<open>time.Duration(100*a) * time.Millisecond\<close>, which is \<open>a\<close> times 100ms for every
  \<open>a\<close> up to 92233720368: linear, and with no jitter.
\<close>

theorem C2_transport_failures:
  assumes "authorized env ctx"
    and "length (targetParts ctx) = 2"
    and "retries env < 9223372036854775807"
    and "\<forall>k < N. \<exists>err. up (length (calls w) + k) (upstreamRequest ctx) = TransportError err"
  shows "(retries env \<le> int N \<longrightarrow>
            StatusCode (fst (requestHandler env up ctx w)) = 504 \<and>
            respBody (fst (requestHandler env up ctx w)) = ''upstream timeout'' \<and>
            calls (snd (requestHandler env up ctx w)) =
              calls w @ replicate (nat (retries env)) (upstreamRequest ctx) \<and>
            sleeps (snd (requestHandler env up ctx w)) =
              sleeps w @ map backoff [1..retries env]) \<and>
         (int N < retries env \<longrightarrow>
            (\<forall>resp. up (length (calls w) + N) (upstreamRequest ctx) = Received resp \<and>
                    StatusCode resp \<noteq> 429 \<and>
                    \<not> (500 \<le> StatusCode resp \<and> StatusCode resp \<le> 599) \<longrightarrow>
               StatusCode (fst (requestHandler env up ctx w)) = StatusCode resp \<and>
               respBody (fst (requestHandler env up ctx w)) = respBody resp \<and>
               calls (snd (requestHandler env up ctx w)) =
                 calls w @ replicate (Suc N) (upstreamRequest ctx) \<and>
               sleeps (snd (requestHandler env up ctx w)) =
                 sleeps w @ map backoff [1..int N])) \<and>
         (\<forall>a. 1 \<le> a \<and> a \<le> 92233720368 \<longrightarrow> backoff a = a * (100 * Millisecond))"
proof (intro conjI impI allI)
  assume le: "retries env \<le> int N"
  have "retryable (up (length (calls w) + k) (upstreamRequest ctx))" if "k < nat (retries env)" for k
  proof -
    from that le have "k < N" by linarith
    with assms(4) show ?thesis by fastforce
  qed
  then have run: "makeRequest env up ctx 1 w = (gatewayTimeout, retried up ctx 1 (nat (retries env)) w)"
    using assms(2) by (intro makeRequest_all_retryable)
  show "StatusCode (fst (requestHandler env up ctx w)) = 504"
    using assms(1,2) run
    by (simp add: requestHandler_relay relay_status_body gatewayTimeout_def)
  show "respBody (fst (requestHandler env up ctx w)) = ''upstream timeout''"
    using assms(1,2) run
    by (simp add: requestHandler_relay relay_status_body gatewayTimeout_def)
  show "calls (snd (requestHandler env up ctx w)) =
          calls w @ replicate (nat (retries env)) (upstreamRequest ctx)"
    using assms(1,2) run by (simp add: requestHandler_relay calls_retried)
  show "sleeps (snd (requestHandler env up ctx w)) = sleeps w @ map backoff [1..retries env]"
    using assms(1,2) run by (simp add: requestHandler_relay sleeps_retried upto_from_1)
next
  fix resp
  assume lt: "int N < retries env"
    and ok: "up (length (calls w) + N) (upstreamRequest ctx) = Received resp \<and>
             StatusCode resp \<noteq> 429 \<and> \<not> (500 \<le> StatusCode resp \<and> StatusCode resp \<le> 599)"
  let ?w = "retried up ctx 1 N w"
  have "retryable (up (length (calls w) + k) (upstreamRequest ctx))" if "k < N" for k
    using assms(4) that by fastforce
  then have "makeRequest env up ctx 1 w = makeRequest env up ctx (1 + int N) ?w"
    using assms(2) lt by (intro makeRequest_retried) simp_all
  also have "\<dots> = (resp, afterCall ctx ?w)"
    using assms(2) lt ok by (intro makeRequest_final) (simp_all add: calls_retried)
  finally have run: "makeRequest env up ctx 1 w = (resp, afterCall ctx ?w)" .
  show "StatusCode (fst (requestHandler env up ctx w)) = StatusCode resp"
    using assms(1,2) run by (simp add: requestHandler_relay relay_status_body)
  show "respBody (fst (requestHandler env up ctx w)) = respBody resp"
    using assms(1,2) run by (simp add: requestHandler_relay relay_status_body)
  show "calls (snd (requestHandler env up ctx w)) =
          calls w @ replicate (Suc N) (upstreamRequest ctx)"
    using assms(1,2) run by (simp add: requestHandler_relay calls_retried replicate_append_same)
  show "sleeps (snd (requestHandler env up ctx w)) = sleeps w @ map backoff [1..int N]"
    using assms(1,2) run by (simp add: requestHandler_relay sleeps_retried)
next
  fix a :: int
  assume "1 \<le> a \<and> a \<le> 92233720368"
  then show "backoff a = a * (100 * Millisecond)"
    by (simp add: backoff_linear)
qed

text \<open>
  C2 as stated fails at \<open>N = maxAttempts\<close>: with \<^verbatim>\<open>retries = 2\<close> and an upstream
  whose first two calls fail and whose third would answer 200, the client receives 504
  after two calls; the success is never asked for. The last conjunct is the duration of
  the sleep after attempt 92233720369, which has wrapped around to a negative int64.
\<close>

theorem C2_counterexample:
  "failingFirst 2 (plainResponse 200 [] ''ok'') 0 (upstreamRequest (getRequest ''/example.com/foo'' []))
     = TransportError ''dial timeout'' \<and>
   failingFirst 2 (plainResponse 200 [] ''ok'') 1 (upstreamRequest (getRequest ''/example.com/foo'' []))
     = TransportError ''dial timeout'' \<and>
   failingFirst 2 (plainResponse 200 [] ''ok'') 2 (upstreamRequest (getRequest ''/example.com/foo'' []))
     = Received (plainResponse 200 [] ''ok'') \<and>
   StatusCode (fst (requestHandler \<lparr>retries = 2, KEY = None\<rparr>
       (failingFirst 2 (plainResponse 200 [] ''ok''))
       (getRequest ''/example.com/foo'' []) noWorld)) = 504 \<and>
   respBody (fst (requestHandler \<lparr>retries = 2, KEY = None\<rparr>
       (failingFirst 2 (plainResponse 200 [] ''ok''))
       (getRequest ''/example.com/foo'' []) noWorld)) = ''upstream timeout'' \<and>
   length (calls (snd (requestHandler \<lparr>retries = 2, KEY = None\<rparr>
       (failingFirst 2 (plainResponse 200 [] ''ok''))
       (getRequest ''/example.com/foo'' []) noWorld))) = 2 \<and>
   backoff 92233720369 < 0"
  by code_simp

text \<open>
  The amended C2 with \<^verbatim>\<open>retries = 3\<close>: after one failure the client receives the
  200 with its body, after two calls and one sleep of 100ms; after three failures it
  receives 504.
\<close>

theorem C2_witness:
  "authorized \<lparr>retries = 3, KEY = None\<rparr> (getRequest ''/example.com/foo'' []) \<and>
   length (targetParts (getRequest ''/example.com/foo'' [])) = 2 \<and>
   retries \<lparr>retries = 3, KEY = None\<rparr> < 9223372036854775807 \<and>
   StatusCode (fst (requestHandler \<lparr>retries = 3, KEY = None\<rparr>
       (failingFirst 1 (plainResponse 200 [] ''ok''))
       (getRequest ''/example.com/foo'' []) noWorld)) = 200 \<and>
   respBody (fst (requestHandler \<lparr>retries = 3, KEY = None\<rparr>
       (failingFirst 1 (plainResponse 200 [] ''ok''))
       (getRequest ''/example.com/foo'' []) noWorld)) = ''ok'' \<and>
   length (calls (snd (requestHandler \<lparr>retries = 3, KEY = None\<rparr>
       (failingFirst 1 (plainResponse 200 [] ''ok''))
       (getRequest ''/example.com/foo'' []) noWorld))) = 2 \<and>
   sleeps (snd (requestHandler \<lparr>retries = 3, KEY = None\<rparr>
       (failingFirst 1 (plainResponse 200 [] ''ok''))
       (getRequest ''/example.com/foo'' []) noWorld)) = [100000000] \<and>
   StatusCode (fst (requestHandler \<lparr>retries = 3, KEY = None\<rparr>
       (failingFirst 3 (plainResponse 200 [] ''ok''))
       (getRequest ''/example.com/foo'' []) noWorld)) = 504 \<and>
   sleeps (snd (requestHandler \<lparr>retries = 3, KEY = None\<rparr>
       (failingFirst 3 (plainResponse 200 [] ''ok''))
       (getRequest ''/example.com/foo'' []) noWorld)) = [100000000, 200000000, 300000000]"
proof -
  let ?env = "\<lparr>retries = 3, KEY = None\<rparr>"
  let ?ctx = "getRequest ''/example.com/foo'' []"
  let ?ok = "plainResponse 200 [] ''ok''"
  have a: "authorized ?env ?ctx" by code_simp
  have b: "length (targetParts ?ctx) = 2" by code_simp
  have r: "retries ?env < 9223372036854775807" by simp
  have c1: "\<forall>k < 1. \<exists>err. failingFirst 1 ?ok (length (calls noWorld) + k) (upstreamRequest ?ctx)
              = TransportError err"
    by (simp add: failingFirst_def noWorld_def)
  have c3: "\<forall>k < 3. \<exists>err. failingFirst 3 ?ok (length (calls noWorld) + k) (upstreamRequest ?ctx)
              = TransportError err"
    by (simp add: failingFirst_def noWorld_def)
  have d: "failingFirst 1 ?ok (length (calls noWorld) + 1) (upstreamRequest ?ctx) = Received ?ok \<and>
           StatusCode ?ok \<noteq> 429 \<and> \<not> (500 \<le> StatusCode ?ok \<and> StatusCode ?ok \<le> 599)"
    by (simp add: failingFirst_def plainResponse_def noWorld_def)
  have u: "[1..3] = [1, 2, 3::int]" "[1..1] = [1::int]"
    by (simp_all add: upto_rec1)
  have bo: "backoff 1 = 100000000" "backoff 2 = 200000000" "backoff 3 = 300000000"
    by code_simp+
  show ?thesis
    using C2_transport_failures [where up = "failingFirst 1 ?ok" and w = noWorld and N = 1, OF a b r c1]
      C2_transport_failures [where up = "failingFirst 3 ?ok" and w = noWorld and N = 3, OF a b r c3]
      a b r d
    by (simp add: noWorld_def u bo replicate_append_same plainResponse_def)
qed

subsection \<open>C3: targets that do not split\<close>

text \<open>
  C3, as amended. For a request that passes the key check: when the target, after its
  first byte, holds no \<^verbatim>\<open>/\<close>, the handler answers 400 with the exact body
  \<^verbatim>\<open>URL format invalid.\<close> and the upstream client is never invoked. When it holds one,
  the handler does not answer so, whether or not a part is empty: with \<^verbatim>\<open>retries\<close>
  of at least 1 and below the largest int64 it invokes the upstream client.
\<close>

theorem C3_no_split_is_400:
  assumes "authorized env ctx"
  shows "(CHR ''/'' \<notin> set (drop 1 (RequestURI ctx)) \<longrightarrow>
            requestHandler env up ctx w =
              (\<lparr>StatusCode = 400, respHeader = [], respBody = ''URL format invalid.''\<rparr>, w)) \<and>
         (CHR ''/'' \<in> set (drop 1 (RequestURI ctx)) \<longrightarrow>
            fst (requestHandler env up ctx w) \<noteq>
              \<lparr>StatusCode = 400, respHeader = [], respBody = ''URL format invalid.''\<rparr> \<and>
            (1 \<le> retries env \<and> retries env < 9223372036854775807 \<longrightarrow>
               length (calls w) < length (calls (snd (requestHandler env up ctx w)))))"
proof (intro conjI impI)
  assume "CHR ''/'' \<notin> set (drop 1 (RequestURI ctx))"
  then have "length (targetParts ctx) < 2"
    by (simp add: targetParts_short)
  with assms show "requestHandler env up ctx w =
      (\<lparr>StatusCode = 400, respHeader = [], respBody = ''URL format invalid.''\<rparr>, w)"
    by (simp add: requestHandler_malformed badRequest_def)
next
  assume "CHR ''/'' \<in> set (drop 1 (RequestURI ctx))"
  then have wf: "length (targetParts ctx) = 2"
    by (simp add: targetParts_two)
  have "respHeader (fst (requestHandler env up ctx w)) \<noteq> []"
    using assms wf by (simp add: requestHandler_relay relay_has_headers)
  then show "fst (requestHandler env up ctx w) \<noteq>
      \<lparr>StatusCode = 400, respHeader = [], respBody = ''URL format invalid.''\<rparr>"
    by auto
  assume "1 \<le> retries env \<and> retries env < 9223372036854775807"
  with makeRequest_calls [of env up ctx 1 w] wf
  obtain n where "calls (snd (makeRequest env up ctx 1 w)) = calls w @ replicate n (upstreamRequest ctx)"
    and "1 \<le> n" by auto
  then show "length (calls w) < length (calls (snd (requestHandler env up ctx w)))"
    using assms wf by (simp add: requestHandler_relay)
qed

text \<open>
  C3 as stated fails for an empty part. The target \<^verbatim>\<open>/example.com/\<close> splits into a
  host and an empty path: the upstream client is invoked for
  \<^verbatim>\<open>https://example.com/\<close>, and the 200 it returns is relayed. The target
  \<^verbatim>\<open>//foo\<close> splits into an empty host and a path: the upstream client is invoked too,
  and when it returns an error, as it does where it reaches no host, the handler answers
  504 after its attempts, not 400. And a request that fails the key check is answered
  407, whatever its target.
\<close>

theorem C3_counterexample:
  "targetParts (getRequest ''/example.com/'' []) = [''example.com'', []] \<and>
   StatusCode (fst (requestHandler \<lparr>retries = 1, KEY = None\<rparr>
       (answering (plainResponse 200 [] ''ok'')) (getRequest ''/example.com/'' []) noWorld)) = 200 \<and>
   map reqURI (calls (snd (requestHandler \<lparr>retries = 1, KEY = None\<rparr>
       (answering (plainResponse 200 [] ''ok'')) (getRequest ''/example.com/'' []) noWorld)))
     = [''https://example.com/''] \<and>
   targetParts (getRequest ''//foo'' []) = [[], ''foo''] \<and>
   StatusCode (fst (requestHandler \<lparr>retries = 1, KEY = None\<rparr>
       (failingFirst 5 (plainResponse 200 [] ''ok'')) (getRequest ''//foo'' []) noWorld)) = 504 \<and>
   length (calls (snd (requestHandler \<lparr>retries = 1, KEY = None\<rparr>
       (failingFirst 5 (plainResponse 200 [] ''ok'')) (getRequest ''//foo'' []) noWorld))) = 1 \<and>
   targetParts (getRequest ''/example.com'' []) = [''example.com''] \<and>
   StatusCode (fst (requestHandler \<lparr>retries = 1, KEY = Some ''secret''\<rparr>
       (answering (plainResponse 200 [] ''ok'')) (getRequest ''/example.com'' []) noWorld)) = 407"
  by code_simp

text \<open>The amended C3 at a target that does not split and at one with an empty path.\<close>

theorem C3_witness:
  "authorized \<lparr>retries = 1, KEY = None\<rparr> (getRequest ''/example.com'' []) \<and>
   CHR ''/'' \<notin> set (drop 1 (RequestURI (getRequest ''/example.com'' []))) \<and>
   requestHandler \<lparr>retries = 1, KEY = None\<rparr>
       (answering (plainResponse 200 [] ''ok'')) (getRequest ''/example.com'' []) noWorld =
     (\<lparr>StatusCode = 400, respHeader = [], respBody = ''URL format invalid.''\<rparr>, noWorld) \<and>
   authorized \<lparr>retries = 1, KEY = None\<rparr> (getRequest ''/example.com/'' []) \<and>
   CHR ''/'' \<in> set (drop 1 (RequestURI (getRequest ''/example.com/'' []))) \<and>
   fst (requestHandler \<lparr>retries = 1, KEY = None\<rparr>
       (answering (plainResponse 200 [] ''ok'')) (getRequest ''/example.com/'' []) noWorld) \<noteq>
     \<lparr>StatusCode = 400, respHeader = [], respBody = ''URL format invalid.''\<rparr> \<and>
   0 < length (calls (snd (requestHandler \<lparr>retries = 1, KEY = None\<rparr>
       (answering (plainResponse 200 [] ''ok'')) (getRequest ''/example.com/'' []) noWorld)))"
proof -
  let ?env = "\<lparr>retries = 1, KEY = None\<rparr>"
  let ?up = "answering (plainResponse 200 [] ''ok'')"
  have a: "authorized ?env (getRequest ''/example.com'' [])" by code_simp
  have b: "CHR ''/'' \<notin> set (drop 1 (RequestURI (getRequest ''/example.com'' [])))" by code_simp
  have c: "authorized ?env (getRequest ''/example.com/'' [])" by code_simp
  have d: "CHR ''/'' \<in> set (drop 1 (RequestURI (getRequest ''/example.com/'' [])))" by code_simp
  have e: "length (calls noWorld) = 0" "1 \<le> retries ?env" "retries ?env < 9223372036854775807"
    by (simp_all add: noWorld_def)
  show ?thesis
    using C3_no_split_is_400 [OF a, where up = ?up and w = noWorld]
      C3_no_split_is_400 [OF c, where up = ?up and w = noWorld] a b c d e
    by simp
qed

subsection \<open>C4: the key check\<close>

text \<open>
  C4. When KEY is set and the value \<^verbatim>\<open>Peek\<close> returns for the inbound PROXYKEY
  header is not byte for byte the value of KEY, the handler answers 407 with the exact
  body \<^verbatim>\<open>Missing or invalid PROXYKEY header.\<close> and leaves the world as it was: no
  upstream call. When KEY is not set, the handler never answers so, whatever the
  headers of the request: its result is that of the format check and the retry
  recursion.
\<close>

theorem C4_key_check:
  "(\<forall>val. KEY env = Some val \<and> Header_Peek (ctxHeader ctx) ''PROXYKEY'' \<noteq> val \<longrightarrow>
      requestHandler env up ctx w =
        (\<lparr>StatusCode = 407, respHeader = [],
          respBody = ''Missing or invalid PROXYKEY header.''\<rparr>, w)) \<and>
   (KEY env = None \<longrightarrow>
      fst (requestHandler env up ctx w) \<noteq>
        \<lparr>StatusCode = 407, respHeader = [],
         respBody = ''Missing or invalid PROXYKEY header.''\<rparr> \<and>
      requestHandler env up ctx w =
        (if length (targetParts ctx) < 2
         then (\<lparr>StatusCode = 400, respHeader = [], respBody = ''URL format invalid.''\<rparr>, w)
         else (relay AcquireResponse (fst (makeRequest env up ctx 1 w)),
               snd (makeRequest env up ctx 1 w))))"
proof (intro conjI allI impI)
  fix val
  assume "KEY env = Some val \<and> Header_Peek (ctxHeader ctx) ''PROXYKEY'' \<noteq> val"
  then have "\<not> authorized env ctx"
    by (simp add: authorized_def)
  then show "requestHandler env up ctx w =
      (\<lparr>StatusCode = 407, respHeader = [],
        respBody = ''Missing or invalid PROXYKEY header.''\<rparr>, w)"
    by (simp add: requestHandler_unauthorized proxyAuthRequired_def)
next
  assume "KEY env = None"
  then have auth: "authorized env ctx"
    by (simp add: authorized_def)
  from requestHandler_not_407 [OF auth]
  show "fst (requestHandler env up ctx w) \<noteq>
      \<lparr>StatusCode = 407, respHeader = [],
       respBody = ''Missing or invalid PROXYKEY header.''\<rparr>"
    by (simp add: proxyAuthRequired_def)
  from requestHandler_authorized [OF auth]
  show "requestHandler env up ctx w =
      (if length (targetParts ctx) < 2
       then (\<lparr>StatusCode = 400, respHeader = [], respBody = ''URL format invalid.''\<rparr>, w)
       else (relay AcquireResponse (fst (makeRequest env up ctx 1 w)),
             snd (makeRequest env up ctx 1 w)))"
    by (simp add: badRequest_def)
qed

text \<open>C4 at a request with a wrong key, with KEY set and with KEY not set.\<close>

theorem C4_witness:
  "KEY \<lparr>retries = 1, KEY = Some ''secret''\<rparr> = Some ''secret'' \<and>
   Header_Peek (ctxHeader (getRequest ''/example.com/foo'' [(''Proxykey'', ''guess'')])) ''PROXYKEY''
     = ''guess'' \<and>
   requestHandler \<lparr>retries = 1, KEY = Some ''secret''\<rparr> (answering (plainResponse 200 [] ''ok''))
       (getRequest ''/example.com/foo'' [(''Proxykey'', ''guess'')]) noWorld =
     (\<lparr>StatusCode = 407, respHeader = [],
       respBody = ''Missing or invalid PROXYKEY header.''\<rparr>, noWorld) \<and>
   KEY \<lparr>retries = 1, KEY = None\<rparr> = None \<and>
   fst (requestHandler \<lparr>retries = 1, KEY = None\<rparr> (answering (plainResponse 200 [] ''ok''))
       (getRequest ''/example.com/foo'' [(''Proxykey'', ''guess'')]) noWorld) \<noteq>
     \<lparr>StatusCode = 407, respHeader = [],
      respBody = ''Missing or invalid PROXYKEY header.''\<rparr> \<and>
   StatusCode (fst (requestHandler \<lparr>retries = 1, KEY = None\<rparr> (answering (plainResponse 200 [] ''ok''))
       (getRequest ''/example.com/foo'' [(''Proxykey'', ''guess'')]) noWorld)) = 200"
proof -
  let ?ctx = "getRequest ''/example.com/foo'' [(''Proxykey'', ''guess'')]"
  let ?up = "answering (plainResponse 200 [] ''ok'')"
  have a: "Header_Peek (ctxHeader ?ctx) ''PROXYKEY'' = ''guess''" by code_simp
  have b: "StatusCode (fst (requestHandler \<lparr>retries = 1, KEY = None\<rparr> ?up ?ctx noWorld)) = 200"
    by code_simp
  have k1: "KEY \<lparr>retries = 1, KEY = Some ''secret''\<rparr> = Some ''secret''"
    and k2: "KEY \<lparr>retries = 1, KEY = None\<rparr> = None"
    and ne: "''guess'' \<noteq> ''secret''"
    by simp_all
  have f1: "requestHandler \<lparr>retries = 1, KEY = Some ''secret''\<rparr> ?up ?ctx noWorld =
      (\<lparr>StatusCode = 407, respHeader = [],
        respBody = ''Missing or invalid PROXYKEY header.''\<rparr>, noWorld)"
    using C4_key_check [of "\<lparr>retries = 1, KEY = Some ''secret''\<rparr>" ?ctx ?up noWorld] k1 a ne
    by metis
  have f2: "fst (requestHandler \<lparr>retries = 1, KEY = None\<rparr> ?up ?ctx noWorld) \<noteq>
      \<lparr>StatusCode = 407, respHeader = [],
       respBody = ''Missing or invalid PROXYKEY header.''\<rparr>"
    using C4_key_check [of "\<lparr>retries = 1, KEY = None\<rparr>" ?ctx ?up noWorld] k2
    by blast
  show ?thesis
    using f1 f2 a b k1 k2 by blast
qed

subsection \<open>C5: the headers sent upstream\<close>




subsection \<open>C6: a 429 response\<close>

text \<open>
  C6, at the input where the code departs from it. A 429 response is final: lemma
  \<open>makeRequest_429_is_final\<close> shows that it is returned as it is after one more upstream
  call, with one sleep of \<^verbatim>\<open>time.Duration(s)*time.Second + 100*time.Millisecond\<close> when
  Retry-After is not empty and \<^verbatim>\<open>Atoi\<close> gives a positive \<open>s\<close>, and no sleep otherwise;
  by lemma \<open>retryAfterDelay_exact\<close> that duration is \<open>s\<close> seconds plus 100ms for every
  \<open>s\<close> up to 9223372036. For a larger \<open>s\<close> the int64 count of nanoseconds wraps
  around: with \<^verbatim>\<open>Retry-After: 9223372037\<close> the 429 is returned after one call, and the
  duration passed to \<^verbatim>\<open>time.Sleep\<close> is negative, for which Go does not pause, where
  the claim asks for a sleep of 9223372037 seconds and 100ms, which is
  9223372037100000000 nanoseconds.
\<close>

theorem C6_retry_after_overflow:
  "fst (makeRequest \<lparr>retries = 5, KEY = None\<rparr>
       (answering (plainResponse 429 [(''Retry-After'', ''9223372037'')] ''slow down''))
       (getRequest ''/example.com/foo'' []) 1 noWorld) =
     plainResponse 429 [(''Retry-After'', ''9223372037'')] ''slow down'' \<and>
   length (calls (snd (makeRequest \<lparr>retries = 5, KEY = None\<rparr>
       (answering (plainResponse 429 [(''Retry-After'', ''9223372037'')] ''slow down''))
       (getRequest ''/example.com/foo'' []) 1 noWorld))) = 1 \<and>
   fst (Atoi ''9223372037'') = 9223372037 \<and>
   sleeps (snd (makeRequest \<lparr>retries = 5, KEY = None\<rparr>
       (answering (plainResponse 429 [(''Retry-After'', ''9223372037'')] ''slow down''))
       (getRequest ''/example.com/foo'' []) 1 noWorld)) = [- 9223372036609551616] \<and>
   9223372037 * Second + 100 * Millisecond = 9223372037100000000"
  by code_simp

subsection \<open>C7: the relayed response\<close>




subsection \<open>C8: the upstream request\<close>




subsection \<open>C9: the recursion ends\<close>

text \<open>
  C9, for \<^verbatim>\<open>retries\<close> below the largest int64 and \<^verbatim>\<open>attempt\<close> an int64, where
  Go's \<^verbatim>\<open>attempt+1\<close> is the sum. \<^verbatim>\<open>makeRequest\<close> is a total function: its
  definition above is accepted with a termination proof, the measure being
  \<^verbatim>\<open>retries + 1 - attempt\<close>. A call whose attempt exceeds \<^verbatim>\<open>retries\<close> returns the
  synthetic 504 at once and touches nothing. Any call makes at most
  \<^verbatim>\<open>retries + 1 - attempt\<close> upstream calls, all with the same request, and the
  attempt numbers it logs before calling itself are \<^verbatim>\<open>attempt\<close>,
  \<^verbatim>\<open>attempt + 1\<close>, and so on, one per recursive call and no more of them than
  upstream calls. In particular, with \<^verbatim>\<open>retries\<close> below 1 the handler answers every
  request that passes the key check and whose target splits in two with the status 504
  and the body \<^verbatim>\<open>upstream timeout\<close>, and makes no upstream call.
\<close>

theorem C9_retry_recursion_is_bounded:
  assumes "retries env < 9223372036854775807"
    and "- 9223372036854775808 \<le> attempt"
    and "attempt \<le> 9223372036854775807"
  shows "(retries env < attempt \<longrightarrow>
            makeRequest env up ctx attempt w =
              (\<lparr>StatusCode = 504, respHeader = [], respBody = ''upstream timeout''\<rparr>, w)) \<and>
         (\<exists>n m. calls (snd (makeRequest env up ctx attempt w)) =
                   calls w @ replicate n (upstreamRequest ctx) \<and>
                map loggedAttempt (logs (snd (makeRequest env up ctx attempt w))) =
                   map loggedAttempt (logs w) @ [attempt..attempt + int m - 1] \<and>
                m \<le> n \<and> n \<le> nat (retries env + 1 - attempt)) \<and>
         (retries env < 1 \<and> authorized env ctx \<and> length (targetParts ctx) = 2 \<longrightarrow>
            StatusCode (fst (requestHandler env up ctx w)) = 504 \<and>
            respBody (fst (requestHandler env up ctx w)) = ''upstream timeout'' \<and>
            snd (requestHandler env up ctx w) = w)"
proof (intro conjI impI)
  assume "retries env < attempt"
  then show "makeRequest env up ctx attempt w =
      (\<lparr>StatusCode = 504, respHeader = [], respBody = ''upstream timeout''\<rparr>, w)"
    by (simp add: makeRequest_exhausted gatewayTimeout_def)
next
  show "\<exists>n m. calls (snd (makeRequest env up ctx attempt w)) =
             calls w @ replicate n (upstreamRequest ctx) \<and>
          map loggedAttempt (logs (snd (makeRequest env up ctx attempt w))) =
             map loggedAttempt (logs w) @ [attempt..attempt + int m - 1] \<and>
          m \<le> n \<and> n \<le> nat (retries env + 1 - attempt)"
    by (rule makeRequest_trace)
next
  assume a: "retries env < 1 \<and> authorized env ctx \<and> length (targetParts ctx) = 2"
  then have run: "makeRequest env up ctx 1 w = (gatewayTimeout, w)"
    by (simp add: makeRequest_exhausted)
  with a show "StatusCode (fst (requestHandler env up ctx w)) = 504"
    by (simp add: requestHandler_relay relay_status_body gatewayTimeout_def)
  from a run show "respBody (fst (requestHandler env up ctx w)) = ''upstream timeout''"
    by (simp add: requestHandler_relay relay_status_body gatewayTimeout_def)
  from a run show "snd (requestHandler env up ctx w) = w"
    by (simp add: requestHandler_relay)
qed

text \<open>
  C9 with \<^verbatim>\<open>retries = 0\<close> at the handler, and with \<^verbatim>\<open>retries = 2\<close> at a call of
  \<^verbatim>\<open>makeRequest\<close> for attempt 3.
\<close>

theorem C9_witness:
  "retries \<lparr>retries = 0, KEY = None\<rparr> < 1 \<and>
   authorized \<lparr>retries = 0, KEY = None\<rparr> (getRequest ''/example.com/foo'' []) \<and>
   length (targetParts (getRequest ''/example.com/foo'' [])) = 2 \<and>
   StatusCode (fst (requestHandler \<lparr>retries = 0, KEY = None\<rparr>
       (answering (plainResponse 200 [] ''ok'')) (getRequest ''/example.com/foo'' []) noWorld)) = 504 \<and>
   respBody (fst (requestHandler \<lparr>retries = 0, KEY = None\<rparr>
       (answering (plainResponse 200 [] ''ok'')) (getRequest ''/example.com/foo'' []) noWorld))
     = ''upstream timeout'' \<and>
   snd (requestHandler \<lparr>retries = 0, KEY = None\<rparr>
       (answering (plainResponse 200 [] ''ok'')) (getRequest ''/example.com/foo'' []) noWorld)
     = noWorld \<and>
   makeRequest \<lparr>retries = 2, KEY = None\<rparr> (answering (plainResponse 200 [] ''ok''))
       (getRequest ''/example.com/foo'' []) 3 noWorld =
     (\<lparr>StatusCode = 504, respHeader = [], respBody = ''upstream timeout''\<rparr>, noWorld)"
proof -
  let ?env = "\<lparr>retries = 0, KEY = None\<rparr>"
  let ?ctx = "getRequest ''/example.com/foo'' []"
  let ?up = "answering (plainResponse 200 [] ''ok'')"
  have r: "retries ?env < 1" by simp
  have r0: "retries ?env < 9223372036854775807" by simp
  have r2: "retries \<lparr>retries = 2, KEY = None\<rparr> < 9223372036854775807" by simp
  have i1: "- 9223372036854775808 \<le> (1::int)" and i3: "- 9223372036854775808 \<le> (3::int)"
    and j1: "(1::int) \<le> 9223372036854775807" and j3: "(3::int) \<le> 9223372036854775807"
    by simp_all
  have a: "authorized ?env ?ctx" by code_simp
  have b: "length (targetParts ?ctx) = 2" by code_simp
  have c: "retries \<lparr>retries = 2, KEY = None\<rparr> < 3" by simp
  have f1: "StatusCode (fst (requestHandler ?env ?up ?ctx noWorld)) = 504 \<and>
            respBody (fst (requestHandler ?env ?up ?ctx noWorld)) = ''upstream timeout'' \<and>
            snd (requestHandler ?env ?up ?ctx noWorld) = noWorld"
    using C9_retry_recursion_is_bounded [OF r0 i1 j1, of ?up ?ctx noWorld] r a b by blast
  have f2: "makeRequest \<lparr>retries = 2, KEY = None\<rparr> ?up ?ctx 3 noWorld =
     (\<lparr>StatusCode = 504, respHeader = [], respBody = ''upstream timeout''\<rparr>, noWorld)"
    using C9_retry_recursion_is_bounded [OF r2 i3 j3, of ?up ?ctx noWorld] c by blast
  show ?thesis
    using r a b f1 f2 by blast
qed

subsection \<open>C10: KEY set to the empty string\<close>

text \<open>
  C10. When KEY is set to the empty string, \<^verbatim>\<open>os.LookupEnv\<close> reports it as set, so
  the check is made. A request with no PROXYKEY header, for which \<^verbatim>\<open>Peek\<close> returns
  no bytes, passes it: the handler does not answer 407 and behaves as it does with KEY
  not set. A request whose PROXYKEY value is not empty is answered 407.
\<close>

theorem C10_empty_key:
  assumes "KEY env = Some []"
  shows "snd (LookupEnv_KEY env) \<and>
         ((\<forall>(k, v) \<in> set (ctxHeader ctx). \<not> sameKey k ''PROXYKEY'') \<longrightarrow>
            Header_Peek (ctxHeader ctx) ''PROXYKEY'' = []) \<and>
         (Header_Peek (ctxHeader ctx) ''PROXYKEY'' = [] \<longrightarrow>
            fst (requestHandler env up ctx w) \<noteq>
              \<lparr>StatusCode = 407, respHeader = [],
               respBody = ''Missing or invalid PROXYKEY header.''\<rparr> \<and>
            requestHandler env up ctx w = requestHandler (env\<lparr>KEY := None\<rparr>) up ctx w) \<and>
         (Header_Peek (ctxHeader ctx) ''PROXYKEY'' \<noteq> [] \<longrightarrow>
            requestHandler env up ctx w =
              (\<lparr>StatusCode = 407, respHeader = [],
                respBody = ''Missing or invalid PROXYKEY header.''\<rparr>, w))"
proof (intro conjI impI)
  show "snd (LookupEnv_KEY env)"
    using assms by (simp add: LookupEnv_KEY_def)
next
  assume "\<forall>(k, v) \<in> set (ctxHeader ctx). \<not> sameKey k ''PROXYKEY''"
  then show "Header_Peek (ctxHeader ctx) ''PROXYKEY'' = []"
    by (rule Header_Peek_absent)
next
  assume "Header_Peek (ctxHeader ctx) ''PROXYKEY'' = []"
  with assms have auth: "authorized env ctx"
    by (simp add: authorized_def)
  from requestHandler_not_407 [OF auth]
  show "fst (requestHandler env up ctx w) \<noteq>
      \<lparr>StatusCode = 407, respHeader = [],
       respBody = ''Missing or invalid PROXYKEY header.''\<rparr>"
    by (simp add: proxyAuthRequired_def)
  from auth show "requestHandler env up ctx w = requestHandler (env\<lparr>KEY := None\<rparr>) up ctx w"
    by (rule requestHandler_without_KEY)
next
  assume "Header_Peek (ctxHeader ctx) ''PROXYKEY'' \<noteq> []"
  with assms have "\<not> authorized env ctx"
    by (simp add: authorized_def)
  then show "requestHandler env up ctx w =
      (\<lparr>StatusCode = 407, respHeader = [],
        respBody = ''Missing or invalid PROXYKEY header.''\<rparr>, w)"
    by (simp add: requestHandler_unauthorized proxyAuthRequired_def)
qed

text \<open>C10 at a request without the header and at one with a value for it.\<close>

theorem C10_witness:
  "KEY \<lparr>retries = 1, KEY = Some []\<rparr> = Some [] \<and>
   Header_Peek (ctxHeader (getRequest ''/example.com/foo'' [(''Accept'', ''text/html'')])) ''PROXYKEY'' = [] \<and>
   StatusCode (fst (requestHandler \<lparr>retries = 1, KEY = Some []\<rparr> (answering (plainResponse 200 [] ''ok''))
       (getRequest ''/example.com/foo'' [(''Accept'', ''text/html'')]) noWorld)) = 200 \<and>
   fst (requestHandler \<lparr>retries = 1, KEY = Some []\<rparr> (answering (plainResponse 200 [] ''ok''))
       (getRequest ''/example.com/foo'' [(''Accept'', ''text/html'')]) noWorld) \<noteq>
     \<lparr>StatusCode = 407, respHeader = [],
      respBody = ''Missing or invalid PROXYKEY header.''\<rparr> \<and>
   Header_Peek (ctxHeader (getRequest ''/example.com/foo'' [(''Proxykey'', ''guess'')])) ''PROXYKEY'' = ''guess'' \<and>
   requestHandler \<lparr>retries = 1, KEY = Some []\<rparr> (answering (plainResponse 200 [] ''ok''))
       (getRequest ''/example.com/foo'' [(''Proxykey'', ''guess'')]) noWorld =
     (\<lparr>StatusCode = 407, respHeader = [],
       respBody = ''Missing or invalid PROXYKEY header.''\<rparr>, noWorld)"
proof -
  let ?env = "\<lparr>retries = 1, KEY = Some []\<rparr>"
  let ?up = "answering (plainResponse 200 [] ''ok'')"
  let ?c1 = "getRequest ''/example.com/foo'' [(''Accept'', ''text/html'')]"
  let ?c2 = "getRequest ''/example.com/foo'' [(''Proxykey'', ''guess'')]"
  have k: "KEY ?env = Some []" by simp
  have a: "Header_Peek (ctxHeader ?c1) ''PROXYKEY'' = []" by code_simp
  have b: "Header_Peek (ctxHeader ?c2) ''PROXYKEY'' = ''guess''" by code_simp
  have c: "StatusCode (fst (requestHandler ?env ?up ?c1 noWorld)) = 200" by code_simp
  have f1: "fst (requestHandler ?env ?up ?c1 noWorld) \<noteq>
      \<lparr>StatusCode = 407, respHeader = [],
       respBody = ''Missing or invalid PROXYKEY header.''\<rparr>"
    using C10_empty_key [OF k, of ?c1 ?up noWorld] a by blast
  have ne: "''guess'' \<noteq> []" by simp
  have f2: "requestHandler ?env ?up ?c2 noWorld =
      (\<lparr>StatusCode = 407, respHeader = [],
        respBody = ''Missing or invalid PROXYKEY header.''\<rparr>, noWorld)"
    using C10_empty_key [OF k, of ?c2 ?up noWorld] b ne by metis
  show ?thesis
    using f1 f2 a b c k by blast
qed

end
